theory Spec2Isabelle
  imports Main
begin

section \<open>The host logging subsystem, as far as the module drives it\<close>

text \<open>
  \<^verbatim>\<open>src/utils/logging.py\<close> configures Python's \<^verbatim>\<open>logging\<close> package. The part of that
  package the module calls is written out here: a logger has a list of attached handlers,
  an integer level, a propagation flag and the flag \<^verbatim>\<open>disabled\<close>; a handler is an object
  with an identity, a stream, a flush operation and an optional formatter.
\<close>

datatype handler = Handler nat

datatype stream = Stderr | Devnull

record handler_obj =
  h_stream :: "stream option"
  h_flush :: "stream option"
  h_formatter :: "string option"

record logger =
  lg_handlers :: "handler list"
  lg_level :: int
  lg_propagate :: bool
  lg_disabled :: bool

text \<open>Hashable argument values of a logging call, and the logger a call is made on.\<close>

datatype atom = AStr string | AInt int

datatype logger_ref = Root | Named string

type_synonym kwargs = "(string \<times> atom) list"

text \<open>
  One call of \<^verbatim>\<open>Logger.warning\<close> or \<^verbatim>\<open>Logger.info\<close>: the logger, the severity and
  the arguments handed to the host subsystem.
\<close>

type_synonym emission = "logger_ref \<times> int \<times> atom list \<times> kwargs"

datatype error = AssertionError | TypeError

definition CRITICAL :: int where "CRITICAL = 50"
definition ERROR :: int where "ERROR = 40"
definition WARNING :: int where "WARNING = 30"
definition INFO :: int where "INFO = 20"
definition DEBUG :: int where "DEBUG = 10"
definition NOTSET :: int where "NOTSET = 0"

text \<open>
  The process state the module reads and writes: its own globals (\<^verbatim>\<open>_default_handler\<close>,
  \<^verbatim>\<open>_tqdm_active\<close>, the two \<^verbatim>\<open>lru_cache\<close> tables), the environment, \<^verbatim>\<open>sys.stderr\<close>,
  the logger registry of the host (\<^verbatim>\<open>logging.root\<close>, \<^verbatim>\<open>manager.loggerDict\<close> and the
  threshold \<^verbatim>\<open>manager.disable\<close> that \<^verbatim>\<open>logging.disable\<close> sets), the handler objects, the
  calls handed to the host loggers so far (\<open>emitted\<close>), the log records the host has made
  of them (\<open>log_records\<close>), the capture switch of the \<^verbatim>\<open>warnings\<close> channel and the switch
  of the hub library's progress bars.
\<close>

record state =
  default_handler :: "handler option"
  environ :: "string \<rightharpoonup> string"
  sys_stderr :: "stream option"
  root_logger :: logger
  loggerDict :: "string \<rightharpoonup> logger"
  manager_disable :: int
  handler_objs :: "handler \<Rightarrow> handler_obj"
  next_handler :: nat
  emitted :: "emission list"
  log_records :: "emission list"
  warning_once_cache :: "(logger_ref \<times> atom list \<times> kwargs) list"
  info_once_cache :: "(logger_ref \<times> atom list \<times> kwargs) list"
  warnings_captured :: bool
  tqdm_active :: bool
  hub_progress_bars_disabled :: bool

text \<open>\<^verbatim>\<open>logging.getLogger(name)\<close> creates the logger on first lookup, with these attributes.\<close>

definition new_logger :: logger where
  "new_logger =
     \<lparr>lg_handlers = [], lg_level = NOTSET, lg_propagate = True, lg_disabled = False\<rparr>"

definition getLogger :: "string \<Rightarrow> state \<Rightarrow> state" where
  "getLogger name s =
     (case loggerDict s name of
        Some l \<Rightarrow> s
      | None \<Rightarrow> s\<lparr>loggerDict := (loggerDict s)(name \<mapsto> new_logger)\<rparr>)"

definition the_logger :: "string \<Rightarrow> state \<Rightarrow> logger" where
  "the_logger name s = (case loggerDict s name of Some l \<Rightarrow> l | None \<Rightarrow> new_logger)"

definition update_logger :: "string \<Rightarrow> (logger \<Rightarrow> logger) \<Rightarrow> state \<Rightarrow> state" where
  "update_logger name f s = s\<lparr>loggerDict := (loggerDict s)(name \<mapsto> f (the_logger name s))\<rparr>"

text \<open>
  \<^verbatim>\<open>Logger.addHandler\<close> appends the handler unless it is already in the list;
  \<^verbatim>\<open>Logger.removeHandler\<close> removes it if it is in the list; \<^verbatim>\<open>Logger.setLevel\<close> stores
  an integer level.
\<close>

definition addHandler :: "handler \<Rightarrow> logger \<Rightarrow> logger" where
  "addHandler hdlr l =
     (if hdlr \<notin> set (lg_handlers l) then l\<lparr>lg_handlers := lg_handlers l @ [hdlr]\<rparr> else l)"

definition removeHandler :: "handler \<Rightarrow> logger \<Rightarrow> logger" where
  "removeHandler hdlr l =
     (if hdlr \<in> set (lg_handlers l) then l\<lparr>lg_handlers := remove1 hdlr (lg_handlers l)\<rparr> else l)"

definition setLevel :: "int \<Rightarrow> logger \<Rightarrow> logger" where
  "setLevel lvl l = l\<lparr>lg_level := lvl\<rparr>"

definition setFormatter :: "handler \<Rightarrow> string option \<Rightarrow> state \<Rightarrow> state" where
  "setFormatter hdlr fmt s =
     s\<lparr>handler_objs := (handler_objs s)(hdlr := (handler_objs s hdlr)\<lparr>h_formatter := fmt\<rparr>)\<rparr>"

text \<open>
  The parent of a logger: the nearest ancestor that is a logger of the registry, or the
  root logger when there is none. \<^verbatim>\<open>Manager._fixupParents\<close> finds it by scanning the name
  from its last dot to the left (\<^verbatim>\<open>i = name.rfind(".")\<close>, then
  \<^verbatim>\<open>name.rfind(".", 0, i - 1)\<close>, while \<^verbatim>\<open>i > 0\<close>) for the first prefix \<^verbatim>\<open>name[:i]\<close> that
  is a logger, and \<^verbatim>\<open>Manager._fixupChildren\<close> puts a logger created later between a logger
  and its parent. \<open>ancestor_candidates_below name k\<close> lists the prefixes the scan meets at
  the dots before position \<open>k\<close>. (CPython tests name prefixes in \<^verbatim>\<open>_fixupChildren\<close>, which
  leaves the loggers below a later-created logger called \<^verbatim>\<open>r\<close>, \<^verbatim>\<open>ro\<close> or \<^verbatim>\<open>roo\<close> at the
  root logger, whose name is \<^verbatim>\<open>root\<close>; the model does not follow that.)
\<close>

fun ancestor_candidates_below :: "string \<Rightarrow> nat \<Rightarrow> string list" where
  "ancestor_candidates_below name 0 = []"
| "ancestor_candidates_below name (Suc k) =
     (if k < length name \<and> name ! k = CHR ''.''
      then (if 0 < k then take k name # ancestor_candidates_below name (k - 1) else [])
      else ancestor_candidates_below name k)"

definition ancestor_candidates :: "string \<Rightarrow> string list" where
  "ancestor_candidates name = ancestor_candidates_below name (length name)"

definition parent_of :: "string \<Rightarrow> state \<Rightarrow> logger_ref" where
  "parent_of name s =
     (case filter (\<lambda>n. loggerDict s n \<noteq> None) (ancestor_candidates name) of
        [] \<Rightarrow> Root
      | p # _ \<Rightarrow> Named p)"

text \<open>
  \<^verbatim>\<open>Logger.getEffectiveLevel\<close>: the level of the first logger with a level other than
  zero, from the logger itself up through its parents to the root logger; \<^verbatim>\<open>NOTSET\<close>
  when there is none.
\<close>

function getEffectiveLevel :: "string \<Rightarrow> state \<Rightarrow> int" where
  "getEffectiveLevel name s =
     (if lg_level (the_logger name s) \<noteq> 0 then lg_level (the_logger name s)
      else (case parent_of name s of
              Root \<Rightarrow> (if lg_level (root_logger s) \<noteq> 0 then lg_level (root_logger s) else NOTSET)
            | Named p \<Rightarrow> getEffectiveLevel p s))"
  by pat_completeness auto
termination
proof (relation "measure (\<lambda>(name, s). length name)")
  show "wf (measure (\<lambda>(name, s). length name))"
    by simp
next
  fix name :: string and s :: state and p :: string
  assume par: "parent_of name s = Named p"
  have shorter: "q \<in> set (ancestor_candidates_below n k) \<Longrightarrow> k \<le> length n \<Longrightarrow>
      length q < length n" for q n k
    by (induction n k rule: ancestor_candidates_below.induct) (auto split: if_splits)
  from par obtain ps where "filter (\<lambda>n. loggerDict s n \<noteq> None) (ancestor_candidates name) = p # ps"
    by (auto simp: parent_of_def split: list.splits)
  then have "p \<in> set (filter (\<lambda>n. loggerDict s n \<noteq> None) (ancestor_candidates name))"
    by simp
  then have "p \<in> set (ancestor_candidates_below name (length name))"
    by (simp add: ancestor_candidates_def)
  then have "length p < length name"
    using shorter by blast
  then show "((p, s), (name, s)) \<in> measure (\<lambda>(name, s). length name)"
    by simp
qed

declare getEffectiveLevel.simps [simp del]

definition logger_of :: "logger_ref \<Rightarrow> state \<Rightarrow> logger" where
  "logger_of self s = (case self of Root \<Rightarrow> root_logger s | Named name \<Rightarrow> the_logger name s)"

definition effective_level :: "logger_ref \<Rightarrow> state \<Rightarrow> int" where
  "effective_level self s =
     (case self of
        Root \<Rightarrow> (if lg_level (root_logger s) \<noteq> 0 then lg_level (root_logger s) else NOTSET)
      | Named name \<Rightarrow> getEffectiveLevel name s)"

text \<open>
  \<^verbatim>\<open>Logger.isEnabledFor(level)\<close>: false for a disabled logger and for a level at or below
  \<^verbatim>\<open>manager.disable\<close>; otherwise whether the level reaches the effective level.
\<close>

definition isEnabledFor :: "logger_ref \<Rightarrow> int \<Rightarrow> state \<Rightarrow> bool" where
  "isEnabledFor self level s =
     (if lg_disabled (logger_of self s) then False
      else if level \<le> manager_disable s then False
      else effective_level self s \<le> level)"

text \<open>The result of an operation that may raise: the state is kept in both cases.\<close>

datatype outcome = Returns state | Raises error state

fun final :: "outcome \<Rightarrow> state" where
  "final (Returns s) = s"
| "final (Raises e s) = s"

text \<open>
  \<^verbatim>\<open>Logger.warning(self, msg, *args, **kwargs)\<close> and \<^verbatim>\<open>Logger.info\<close>. The call binds its
  arguments: the message is the first positional argument or the keyword \<^verbatim>\<open>msg\<close>, not
  both and not neither, and a keyword \<^verbatim>\<open>self\<close> collides with the instance; otherwise
  \<^verbatim>\<open>TypeError\<close>. A bound call is a call handed to the host (\<open>emitted\<close>). When the logger is
  enabled for the level, the keywords go on to \<^verbatim>\<open>Logger._log\<close>, which takes
  \<^verbatim>\<open>exc_info\<close>, \<^verbatim>\<open>stack_info\<close>, \<^verbatim>\<open>stacklevel\<close> (a number) and \<^verbatim>\<open>extra\<close> (of the
  values here only the empty string, having no keys, passes) and raises \<^verbatim>\<open>TypeError\<close> on
  anything else; then the host makes a log record and gives it to the handlers, which
  keep their own errors to themselves. When the logger is not enabled, the call returns
  without looking at the keywords.
\<close>

definition accepts_message :: "atom list \<Rightarrow> kwargs \<Rightarrow> bool" where
  "accepts_message args kw =
     (''self'' \<notin> fst ` set kw \<and> ((args = []) = (''msg'' \<in> fst ` set kw)))"

definition takes_keyword :: "string \<times> atom \<Rightarrow> bool" where
  "takes_keyword kv =
     (if fst kv = ''exc_info'' \<or> fst kv = ''stack_info'' then True
      else if fst kv = ''stacklevel'' then (case snd kv of AInt n \<Rightarrow> True | AStr x \<Rightarrow> False)
      else if fst kv = ''extra'' then (case snd kv of AStr x \<Rightarrow> x = [] | AInt n \<Rightarrow> False)
      else False)"

definition log_accepts :: "kwargs \<Rightarrow> bool" where
  "log_accepts kw = list_all takes_keyword (filter (\<lambda>kv. fst kv \<noteq> ''msg'') kw)"

definition log_at_level ::
    "int \<Rightarrow> logger_ref \<Rightarrow> atom list \<Rightarrow> kwargs \<Rightarrow> state \<Rightarrow> outcome" where
  "log_at_level level self args kw s =
     (if \<not> accepts_message args kw then Raises TypeError s
      else if \<not> isEnabledFor self level s
        then Returns (s\<lparr>emitted := emitted s @ [(self, level, args, kw)]\<rparr>)
      else if \<not> log_accepts kw
        then Raises TypeError (s\<lparr>emitted := emitted s @ [(self, level, args, kw)]\<rparr>)
      else Returns (s\<lparr>emitted := emitted s @ [(self, level, args, kw)],
                      log_records := log_records s @ [(self, level, args, kw)]\<rparr>))"

definition Logger_warning :: "logger_ref \<Rightarrow> atom list \<Rightarrow> kwargs \<Rightarrow> state \<Rightarrow> outcome" where
  "Logger_warning self args kw s = log_at_level WARNING self args kw s"

definition Logger_info :: "logger_ref \<Rightarrow> atom list \<Rightarrow> kwargs \<Rightarrow> state \<Rightarrow> outcome" where
  "Logger_info self args kw s = log_at_level INFO self args kw s"

text \<open>\<^verbatim>\<open>logging.StreamHandler()\<close>: a new handler object writing to the current \<^verbatim>\<open>sys.stderr\<close>.\<close>

definition StreamHandler :: "state \<Rightarrow> handler \<times> state" where
  "StreamHandler s =
     (Handler (next_handler s),
      s\<lparr>handler_objs := (handler_objs s)(Handler (next_handler s) :=
            \<lparr>h_stream = sys_stderr s, h_flush = sys_stderr s, h_formatter = None\<rparr>),
        next_handler := Suc (next_handler s)\<rparr>)"

section \<open>The verbosity controller\<close>

definition log_levels :: "(string \<times> int) list" where
  "log_levels =
     [(''detail'', DEBUG), (''debug'', DEBUG), (''info'', INFO),
      (''warning'', WARNING), (''error'', ERROR), (''critical'', CRITICAL)]"

definition default_log_level :: int where
  "default_log_level = WARNING"

fun join :: "string \<Rightarrow> string list \<Rightarrow> string" where
  "join sep [] = []"
| "join sep [x] = x"
| "join sep (x # y # ys) = x @ sep @ join sep (y # ys)"

definition unknown_option_message :: "string \<Rightarrow> string" where
  "unknown_option_message env_level_str =
     ''Unknown option TRANSFORMERS_VERBOSITY='' @ env_level_str @ '', ''
       @ ''has to be one of: '' @ join '', '' (map fst log_levels)"

definition get_default_logging_level :: "state \<Rightarrow> int \<times> state" where
  "get_default_logging_level s =
     (case environ s ''TRANSFORMERS_VERBOSITY'' of
        None \<Rightarrow> (default_log_level, s)
      | Some env_level_str \<Rightarrow>
          if env_level_str \<noteq> [] then
            (case map_of log_levels env_level_str of
               Some lvl \<Rightarrow> (lvl, s)
             | None \<Rightarrow>
                 (default_log_level,
                  final (Logger_warning Root [AStr (unknown_option_message env_level_str)] [] s)))
          else (default_log_level, s))"

text \<open>The module is \<^verbatim>\<open>src/utils/logging.py\<close>; its \<^verbatim>\<open>__name__\<close> is the dotted path.\<close>

definition name_of_module :: string where
  "name_of_module = ''src.utils.logging''"

definition get_library_name :: string where
  "get_library_name = takeWhile (\<lambda>c. c \<noteq> CHR ''.'') name_of_module"

abbreviation library_root_logger :: "state \<Rightarrow> logger" where
  "library_root_logger s \<equiv> the_logger get_library_name s"

definition detail_format :: string where
  "detail_format = ''[%(levelname)s|%(pathname)s:%(lineno)s] %(asctime)s >> %(message)s''"

definition explicit_format :: string where
  "explicit_format = ''[%(levelname)s|%(filename)s:%(lineno)s] %(asctime)s >> %(message)s''"

definition bind_flush :: "handler \<Rightarrow> state \<Rightarrow> state" where
  "bind_flush hdlr s =
     s\<lparr>handler_objs := (handler_objs s)(hdlr := (handler_objs s hdlr)\<lparr>h_flush := sys_stderr s\<rparr>)\<rparr>"

definition configure_library_root_logger :: "state \<Rightarrow> state" where
  "configure_library_root_logger s =
     (case default_handler s of
        Some h \<Rightarrow> s
      | None \<Rightarrow>
          let (h, s1) = StreamHandler s;
              s2 = s1\<lparr>default_handler := Some h\<rparr>;
              s3 = (if sys_stderr s2 = None then s2\<lparr>sys_stderr := Some Devnull\<rparr> else s2);
              s4 = bind_flush h s3;
              s5 = update_logger get_library_name (addHandler h) s4;
              (lvl, s6) = get_default_logging_level s5;
              s7 = update_logger get_library_name (setLevel lvl) s6;
              s8 = (if environ s7 ''TRANSFORMERS_VERBOSITY'' = Some ''detail''
                    then setFormatter h (Some detail_format) s7 else s7)
          in update_logger get_library_name (\<lambda>l. l\<lparr>lg_propagate := False\<rparr>) s8)"

definition reset_library_root_logger :: "state \<Rightarrow> state" where
  "reset_library_root_logger s =
     (case default_handler s of
        None \<Rightarrow> s
      | Some h \<Rightarrow>
          let s1 = update_logger get_library_name (removeHandler h) s;
              s2 = update_logger get_library_name (setLevel NOTSET) s1
          in s2\<lparr>default_handler := None\<rparr>)"

text \<open>
  \<^verbatim>\<open>logging.getLogger(name)\<close>, called with a name the caller chose: the root logger for
  the empty name and (since Python 3.9) for the root logger's own name, \<^verbatim>\<open>root\<close>;
  otherwise the logger of the registry, created on first lookup.
\<close>

definition logging_getLogger :: "string \<Rightarrow> state \<Rightarrow> logger_ref \<times> state" where
  "logging_getLogger name s =
     (if name = [] \<or> name = ''root'' then (Root, s) else (Named name, getLogger name s))"

definition get_logger :: "string option \<Rightarrow> state \<Rightarrow> logger_ref \<times> state" where
  "get_logger name s =
     (let n = (case name of None \<Rightarrow> get_library_name | Some n \<Rightarrow> n)
      in logging_getLogger n (configure_library_root_logger s))"

definition get_verbosity :: "state \<Rightarrow> int \<times> state" where
  "get_verbosity s =
     (let s1 = configure_library_root_logger s
      in (getEffectiveLevel get_library_name s1, getLogger get_library_name s1))"

definition set_verbosity :: "int \<Rightarrow> state \<Rightarrow> state" where
  "set_verbosity verbosity s =
     update_logger get_library_name (setLevel verbosity) (configure_library_root_logger s)"

definition set_verbosity_info :: "state \<Rightarrow> state" where
  "set_verbosity_info = set_verbosity INFO"

definition set_verbosity_warning :: "state \<Rightarrow> state" where
  "set_verbosity_warning = set_verbosity WARNING"

definition set_verbosity_debug :: "state \<Rightarrow> state" where
  "set_verbosity_debug = set_verbosity DEBUG"

definition set_verbosity_error :: "state \<Rightarrow> state" where
  "set_verbosity_error = set_verbosity ERROR"

definition disable_default_handler :: "state \<Rightarrow> outcome" where
  "disable_default_handler s =
     (let s1 = configure_library_root_logger s
      in case default_handler s1 of
           None \<Rightarrow> Raises AssertionError s1
         | Some h \<Rightarrow> Returns (update_logger get_library_name (removeHandler h) s1))"

definition enable_default_handler :: "state \<Rightarrow> outcome" where
  "enable_default_handler s =
     (let s1 = configure_library_root_logger s
      in case default_handler s1 of
           None \<Rightarrow> Raises AssertionError s1
         | Some h \<Rightarrow> Returns (update_logger get_library_name (addHandler h) s1))"

definition add_handler :: "handler option \<Rightarrow> state \<Rightarrow> outcome" where
  "add_handler handler s =
     (let s1 = configure_library_root_logger s
      in case handler of
           None \<Rightarrow> Raises AssertionError s1
         | Some h \<Rightarrow> Returns (update_logger get_library_name (addHandler h) s1))"

definition remove_handler :: "handler option \<Rightarrow> state \<Rightarrow> outcome" where
  "remove_handler handler s =
     (let s1 = configure_library_root_logger s
      in case handler of
           None \<Rightarrow> Raises AssertionError s1
         | Some h \<Rightarrow>
             if h \<notin> set (lg_handlers (library_root_logger s1))
             then Returns (update_logger get_library_name (removeHandler h) s1)
             else Raises AssertionError (getLogger get_library_name s1))"

definition disable_propagation :: "state \<Rightarrow> state" where
  "disable_propagation s =
     update_logger get_library_name (\<lambda>l. l\<lparr>lg_propagate := False\<rparr>)
       (configure_library_root_logger s)"

definition enable_propagation :: "state \<Rightarrow> state" where
  "enable_propagation s =
     update_logger get_library_name (\<lambda>l. l\<lparr>lg_propagate := True\<rparr>)
       (configure_library_root_logger s)"

definition enable_explicit_format :: "state \<Rightarrow> state" where
  "enable_explicit_format s =
     (let s1 = getLogger get_library_name s
      in fold (\<lambda>hdlr. setFormatter hdlr (Some explicit_format))
           (lg_handlers (library_root_logger s1)) s1)"

definition reset_format :: "state \<Rightarrow> state" where
  "reset_format s =
     (let s1 = getLogger get_library_name s
      in fold (\<lambda>hdlr. setFormatter hdlr None) (lg_handlers (library_root_logger s1)) s1)"

definition captureWarnings :: "bool \<Rightarrow> state \<Rightarrow> state" where
  "captureWarnings capture s =
     (let (logger, s1) = get_logger (Some ''py.warnings'') s;
          s2 = (if lg_handlers (the_logger ''py.warnings'' s1) = []
                then (case default_handler s1 of
                        Some h \<Rightarrow> update_logger ''py.warnings'' (addHandler h) s1
                      | None \<Rightarrow> s1)
                else s1);
          s3 = getLogger get_library_name s2;
          s4 = update_logger ''py.warnings'' (setLevel (lg_level (library_root_logger s3))) s3
      in s4\<lparr>warnings_captured := capture\<rparr>)"

text \<open>The controller operations, and the state each leaves behind (also when it raises).\<close>

datatype operation =
    Configure
  | Reset
  | Get_logger "string option"
  | Get_verbosity
  | Set_verbosity int
  | Set_verbosity_info
  | Set_verbosity_warning
  | Set_verbosity_debug
  | Set_verbosity_error
  | Disable_default_handler
  | Enable_default_handler
  | Add_handler "handler option"
  | Remove_handler "handler option"
  | Disable_propagation
  | Enable_propagation
  | Enable_explicit_format
  | Reset_format
  | CaptureWarnings bool

fun perform :: "operation \<Rightarrow> state \<Rightarrow> state" where
  "perform Configure s = configure_library_root_logger s"
| "perform Reset s = reset_library_root_logger s"
| "perform (Get_logger name) s = snd (get_logger name s)"
| "perform Get_verbosity s = snd (get_verbosity s)"
| "perform (Set_verbosity v) s = set_verbosity v s"
| "perform Set_verbosity_info s = set_verbosity_info s"
| "perform Set_verbosity_warning s = set_verbosity_warning s"
| "perform Set_verbosity_debug s = set_verbosity_debug s"
| "perform Set_verbosity_error s = set_verbosity_error s"
| "perform Disable_default_handler s = final (disable_default_handler s)"
| "perform Enable_default_handler s = final (enable_default_handler s)"
| "perform (Add_handler h) s = final (add_handler h s)"
| "perform (Remove_handler h) s = final (remove_handler h s)"
| "perform Disable_propagation s = disable_propagation s"
| "perform Enable_propagation s = enable_propagation s"
| "perform Enable_explicit_format s = enable_explicit_format s"
| "perform Reset_format s = reset_format s"
| "perform (CaptureWarnings capture) s = captureWarnings capture s"

section \<open>Logger methods added by the module\<close>

text \<open>
  \<^verbatim>\<open>os.getenv("TRANSFORMERS_NO_ADVISORY_WARNINGS", False)\<close> is the variable's string, or
  \<^verbatim>\<open>False\<close> when it is not set; a string is true when it is not empty.
\<close>

definition warning_advice :: "logger_ref \<Rightarrow> atom list \<Rightarrow> kwargs \<Rightarrow> state \<Rightarrow> outcome" where
  "warning_advice self args kw s =
     (if ''self'' \<in> fst ` set kw then Raises TypeError s
      else
        let no_advisory_warnings =
              (case environ s ''TRANSFORMERS_NO_ADVISORY_WARNINGS'' of
                 None \<Rightarrow> False
               | Some v \<Rightarrow> v \<noteq> [])
        in if no_advisory_warnings then Returns s else Logger_warning self args kw s)"



section \<open>The progress indicator gate\<close>

datatype pyval = PyNone | PyInt int | PyStr string | PyList "pyval list"

text \<open>\<^verbatim>\<open>iter(v)\<close>: the elements of a list or a string in order; \<^verbatim>\<open>TypeError\<close> otherwise.\<close>

fun py_iter :: "pyval \<Rightarrow> error + pyval list" where
  "py_iter (PyList xs) = Inr xs"
| "py_iter (PyStr cs) = Inr (map (\<lambda>c. PyStr [c]) cs)"
| "py_iter PyNone = Inl TypeError"
| "py_iter (PyInt i) = Inl TypeError"

record EmptyTqdm =
  iterator :: pyval

text \<open>
  How Python binds the arguments of a call to a function whose parameters (after \<^verbatim>\<open>self\<close>)
  are \<open>params\<close>, none with a default: positional arguments fill the first parameters, each
  remaining parameter needs exactly one keyword, and a keyword that names no remaining
  parameter is a \<^verbatim>\<open>TypeError\<close>.
\<close>

definition bind_arguments ::
    "string list \<Rightarrow> pyval list \<Rightarrow> (string \<times> pyval) list \<Rightarrow> error + pyval list" where
  "bind_arguments params args kw =
     (if length args \<le> length params \<and> distinct (map fst kw)
         \<and> set (map fst kw) = set (drop (length args) params)
      then Inr (args @ map (\<lambda>p. case map_of kw p of Some v \<Rightarrow> v | None \<Rightarrow> PyNone)
                        (drop (length args) params))
      else Inl TypeError)"

text \<open>
  \<^verbatim>\<open>__init__(self, *args, **kwargs)\<close> takes any arguments but a keyword called
  \<^verbatim>\<open>self\<close>, which collides with the instance parameter.
\<close>

definition EmptyTqdm_init :: "pyval list \<Rightarrow> (string \<times> pyval) list \<Rightarrow> error + EmptyTqdm" where
  "EmptyTqdm_init args kw =
     (if ''self'' \<in> fst ` set kw then Inl TypeError
      else Inr \<lparr>iterator = (case args of [] \<Rightarrow> PyNone | a # _ \<Rightarrow> a)\<rparr>)"

definition EmptyTqdm_iter :: "EmptyTqdm \<Rightarrow> error + pyval list" where
  "EmptyTqdm_iter self = py_iter (iterator self)"

definition empty_fn :: "pyval list \<Rightarrow> (string \<times> pyval) list \<Rightarrow> pyval" where
  "empty_fn args kw = PyNone"

definition EmptyTqdm_getattr ::
    "EmptyTqdm \<Rightarrow> string \<Rightarrow> pyval list \<Rightarrow> (string \<times> pyval) list \<Rightarrow> pyval" where
  "EmptyTqdm_getattr self name = empty_fn"

definition EmptyTqdm_enter :: "EmptyTqdm \<Rightarrow> EmptyTqdm" where
  "EmptyTqdm_enter self = self"

definition EmptyTqdm_exit :: "EmptyTqdm \<Rightarrow> pyval \<Rightarrow> pyval \<Rightarrow> pyval \<Rightarrow> pyval" where
  "EmptyTqdm_exit self exc_type exc_value traceback = PyNone"

text \<open>
  Attribute lookup on the object. Python asks \<^verbatim>\<open>__getattr__\<close> only for a name that
  ordinary lookup does not find. Ordinary lookup finds the instance attribute
  \<^verbatim>\<open>_iterator\<close>, the methods the class defines, and the names every object has from the
  base class \<^verbatim>\<open>object\<close> and from the class statement: \<open>object_attributes\<close> in Python 3.8,
  and the names later versions add to them (\<^verbatim>\<open>__getstate__\<close> since 3.11), which are the
  parameter \<open>added\<close>.
\<close>

definition instance_attributes :: "string list" where
  "instance_attributes = [''_iterator'']"

definition class_attributes :: "string list" where
  "class_attributes = [''__init__'', ''__iter__'', ''__getattr__'', ''__enter__'', ''__exit__'']"

definition object_attributes :: "string list" where
  "object_attributes =
     [''__class__'', ''__delattr__'', ''__dict__'', ''__dir__'', ''__doc__'', ''__eq__'',
      ''__format__'', ''__ge__'', ''__getattribute__'', ''__gt__'', ''__hash__'',
      ''__init_subclass__'', ''__le__'', ''__lt__'', ''__module__'', ''__ne__'', ''__new__'',
      ''__reduce__'', ''__reduce_ex__'', ''__repr__'', ''__setattr__'', ''__sizeof__'',
      ''__str__'', ''__subclasshook__'', ''__weakref__'']"

definition found_by_lookup :: "string list \<Rightarrow> string list" where
  "found_by_lookup added =
     instance_attributes @ class_attributes @ object_attributes @ added"

text \<open>
  A method invocation on the null progress object and what comes back from it: the
  iteration and the scoped enter and exit that \<^verbatim>\<open>for\<close> and \<^verbatim>\<open>with\<close> perform, and
  \<open>Other name args kw\<close>, the call \<^verbatim>\<open>obj.name(*args, **kw)\<close>. The result is paired with the
  object and the process state after the invocation.
\<close>

datatype invocation =
    Iter
  | Enter
  | Exit pyval pyval pyval
  | Other string "pyval list" "(string \<times> pyval) list"

text \<open>
  \<open>Function\<close> is the function \<^verbatim>\<open>empty_fn\<close> itself, which \<^verbatim>\<open>__getattr__\<close> returns;
  \<open>Inherited\<close> is the result of calling an attribute that comes from the host, kept as
  the call.
\<close>

datatype returned =
    Yields "pyval list"
  | Object EmptyTqdm
  | Value pyval
  | Function
  | Inherited string "pyval list" "(string \<times> pyval) list"
  | Raised error

definition iterate :: "EmptyTqdm \<Rightarrow> state \<Rightarrow> returned \<times> EmptyTqdm \<times> state" where
  "iterate self s =
     (case EmptyTqdm_iter self of Inl e \<Rightarrow> (Raised e, self, s) | Inr xs \<Rightarrow> (Yields xs, self, s))"

text \<open>
  The call \<^verbatim>\<open>obj.name(*args, **kw)\<close>. The stored iterable is not callable. A method of
  the class runs when the arguments fit its parameters; \<^verbatim>\<open>__init__\<close> assigns
  \<^verbatim>\<open>_iterator\<close> again. Any other name that does not come from the host goes to
  \<^verbatim>\<open>__getattr__\<close>, and the function it returns is called with the arguments.
\<close>

definition call_by_name ::
    "string list \<Rightarrow> string \<Rightarrow> pyval list \<Rightarrow> (string \<times> pyval) list \<Rightarrow> EmptyTqdm \<Rightarrow> state
      \<Rightarrow> returned \<times> EmptyTqdm \<times> state" where
  "call_by_name added name args kw self s =
     (if name = ''_iterator'' then (Raised TypeError, self, s)
      else if name = ''__init__'' then
        (case EmptyTqdm_init args kw of
           Inl e \<Rightarrow> (Raised e, self, s)
         | Inr obj \<Rightarrow> (Value PyNone, obj, s))
      else if name = ''__iter__'' then
        (case bind_arguments [] args kw of
           Inl e \<Rightarrow> (Raised e, self, s)
         | Inr bound \<Rightarrow> iterate self s)
      else if name = ''__getattr__'' then
        (case bind_arguments [''_''] args kw of
           Inl e \<Rightarrow> (Raised e, self, s)
         | Inr bound \<Rightarrow> (Function, self, s))
      else if name = ''__enter__'' then
        (case bind_arguments [] args kw of
           Inl e \<Rightarrow> (Raised e, self, s)
         | Inr bound \<Rightarrow> (Object (EmptyTqdm_enter self), self, s))
      else if name = ''__exit__'' then
        (case bind_arguments [''type_'', ''value'', ''traceback''] args kw of
           Inl e \<Rightarrow> (Raised e, self, s)
         | Inr bound \<Rightarrow>
             (case bound of
                [exc_type, exc_value, traceback] \<Rightarrow>
                  (Value (EmptyTqdm_exit self exc_type exc_value traceback), self, s)
              | _ \<Rightarrow> (Raised TypeError, self, s)))
      else if name \<in> set (object_attributes @ added) then (Inherited name args kw, self, s)
      else (Value (EmptyTqdm_getattr self name args kw), self, s))"

fun invoke ::
    "string list \<Rightarrow> invocation \<Rightarrow> EmptyTqdm \<Rightarrow> state \<Rightarrow> returned \<times> EmptyTqdm \<times> state" where
  "invoke added Iter self s = iterate self s"
| "invoke added Enter self s = (Object (EmptyTqdm_enter self), self, s)"
| "invoke added (Exit t v tb) self s = (Value (EmptyTqdm_exit self t v tb), self, s)"
| "invoke added (Other name args kw) self s = call_by_name added name args kw self s"

text \<open>
  \<^verbatim>\<open>_tqdm_cls.__call__(self, *args, **kwargs)\<close>: the real progress bar of the tqdm library
  (kept as its constructor arguments) when the flag is on, the null object otherwise.
\<close>

datatype progress = Tqdm "pyval list" "(string \<times> pyval) list" | Null EmptyTqdm

definition tqdm_call ::
    "pyval list \<Rightarrow> (string \<times> pyval) list \<Rightarrow> state \<Rightarrow> error + progress" where
  "tqdm_call args kw s =
     (if ''self'' \<in> fst ` set kw then Inl TypeError
      else if tqdm_active s then Inr (Tqdm args kw)
      else (case EmptyTqdm_init args kw of
              Inl e \<Rightarrow> Inl e
            | Inr obj \<Rightarrow> Inr (Null obj)))"

definition is_progress_bar_enabled :: "state \<Rightarrow> bool" where
  "is_progress_bar_enabled s = tqdm_active s"


definition disable_progress_bar :: "state \<Rightarrow> state" where
  "disable_progress_bar s = s\<lparr>tqdm_active := False, hub_progress_bars_disabled := True\<rparr>"

text \<open>
  A process in which the module has just been imported: no default handler, no logger
  looked up yet, the root logger of the host at its level \<^verbatim>\<open>WARNING\<close>, nothing emitted,
  empty caches.
\<close>

definition fresh_process :: "(string \<rightharpoonup> string) \<Rightarrow> state" where
  "fresh_process env =
     \<lparr>default_handler = None, environ = env, sys_stderr = Some Stderr,
      root_logger =
        \<lparr>lg_handlers = [], lg_level = WARNING, lg_propagate = True, lg_disabled = False\<rparr>,
      loggerDict = Map.empty, manager_disable = 0,
      handler_objs = (\<lambda>h. \<lparr>h_stream = None, h_flush = None, h_formatter = None\<rparr>),
      next_handler = 0, emitted = [], log_records = [],
      warning_once_cache = [], info_once_cache = [],
      warnings_captured = False, tqdm_active = True, hub_progress_bars_disabled = False\<rparr>"

section \<open>Notions used to state the properties\<close>

text \<open>Whether an operation ended by raising.\<close>

fun raises :: "outcome \<Rightarrow> bool" where
  "raises (Returns s) = False"
| "raises (Raises e s) = True"

text \<open>The five named severity levels.\<close>

definition named_levels :: "int list" where
  "named_levels = [DEBUG, INFO, WARNING, ERROR, CRITICAL]"

text \<open>The operations that run the lazy initialiser before anything else.\<close>

fun triggers_initialization :: "operation \<Rightarrow> bool" where
  "triggers_initialization Reset = False"
| "triggers_initialization Enable_explicit_format = False"
| "triggers_initialization Reset_format = False"
| "triggers_initialization op = True"








section \<open>Properties of the host operations\<close>

lemma get_library_name_eq: "get_library_name = ''src''"
  by (simp add: get_library_name_def name_of_module_def)

lemma the_logger_update_same [simp]:
  "the_logger n (update_logger n f s) = f (the_logger n s)"
  by (simp add: the_logger_def update_logger_def)

lemma the_logger_update_other [simp]:
  "n \<noteq> m \<Longrightarrow> the_logger n (update_logger m f s) = the_logger n s"
  by (simp add: the_logger_def update_logger_def)

lemma the_logger_getLogger [simp]: "the_logger n (getLogger m s) = the_logger n s"
  by (simp add: the_logger_def getLogger_def new_logger_def split: option.splits)

lemma update_logger_fields [simp]:
  "default_handler (update_logger n f s) = default_handler s"
  "environ (update_logger n f s) = environ s"
  "emitted (update_logger n f s) = emitted s"
  "next_handler (update_logger n f s) = next_handler s"
  "root_logger (update_logger n f s) = root_logger s"
  by (simp_all add: update_logger_def)

lemma getLogger_fields [simp]:
  "default_handler (getLogger n s) = default_handler s"
  "environ (getLogger n s) = environ s"
  "emitted (getLogger n s) = emitted s"
  "next_handler (getLogger n s) = next_handler s"
  "root_logger (getLogger n s) = root_logger s"
  by (simp_all add: getLogger_def split: option.splits)

lemma log_at_level_fields [simp]:
  "default_handler (final (log_at_level l self a k s)) = default_handler s"
  "environ (final (log_at_level l self a k s)) = environ s"
  "next_handler (final (log_at_level l self a k s)) = next_handler s"
  "root_logger (final (log_at_level l self a k s)) = root_logger s"
  "loggerDict (final (log_at_level l self a k s)) = loggerDict s"
  "manager_disable (final (log_at_level l self a k s)) = manager_disable s"
  "the_logger n (final (log_at_level l self a k s)) = the_logger n s"
  "warning_once_cache (final (log_at_level l self a k s)) = warning_once_cache s"
  by (simp_all add: log_at_level_def the_logger_def)

lemma root_warning_returns: "\<not> raises (Logger_warning Root [AStr m] [] s)"
  by (simp add: Logger_warning_def log_at_level_def log_accepts_def accepts_message_def)

lemma emitted_log_at_level:
  "emitted (final (log_at_level l self a k s)) =
     (if accepts_message a k then emitted s @ [(self, l, a, k)] else emitted s)"
  by (simp add: log_at_level_def)

lemma accepts_message_positional [simp]: "accepts_message (x # xs) []"
  by (simp add: accepts_message_def)

lemma getEffectiveLevel_own_level:
  "lg_level (the_logger name s) \<noteq> 0 \<Longrightarrow>
   getEffectiveLevel name s = lg_level (the_logger name s)"
  by (subst getEffectiveLevel.simps) simp





lemma distinct_addHandler:
  "distinct (lg_handlers l) \<Longrightarrow> distinct (lg_handlers (addHandler h l))"
  by (simp add: addHandler_def)

lemma distinct_removeHandler:
  "distinct (lg_handlers l) \<Longrightarrow> distinct (lg_handlers (removeHandler h l))"
  by (simp add: removeHandler_def)

lemma member_addHandler: "h \<in> set (lg_handlers (addHandler h l))"
  by (simp add: addHandler_def)

lemma not_member_removeHandler:
  "distinct (lg_handlers l) \<Longrightarrow> h \<notin> set (lg_handlers (removeHandler h l))"
  by (simp add: removeHandler_def)

section \<open>Properties of the lazy initialisation\<close>

lemma configure_initialised:
  "default_handler s = Some h \<Longrightarrow> configure_library_root_logger s = s"
  by (simp add: configure_library_root_logger_def)

lemma get_default_logging_level_fields [simp]:
  "default_handler (snd (get_default_logging_level s)) = default_handler s"
  "environ (snd (get_default_logging_level s)) = environ s"
  "next_handler (snd (get_default_logging_level s)) = next_handler s"
  "root_logger (snd (get_default_logging_level s)) = root_logger s"
  "the_logger n (snd (get_default_logging_level s)) = the_logger n s"
  by (simp_all add: get_default_logging_level_def Logger_warning_def split: option.splits)

lemma level_depends_on_environ:
  "environ s' = environ s \<Longrightarrow> fst (get_default_logging_level s') = fst (get_default_logging_level s)"
  by (simp add: get_default_logging_level_def split: option.splits)

lemma emitted_depends_on_environ:
  "environ s' = environ s \<Longrightarrow> emitted s' = emitted s \<Longrightarrow>
   emitted (snd (get_default_logging_level s')) = emitted (snd (get_default_logging_level s))"
  by (simp add: get_default_logging_level_def Logger_warning_def emitted_log_at_level
      split: option.splits)

lemma setFormatter_fields [simp]:
  "default_handler (setFormatter h f s) = default_handler s"
  "environ (setFormatter h f s) = environ s"
  "emitted (setFormatter h f s) = emitted s"
  "next_handler (setFormatter h f s) = next_handler s"
  "root_logger (setFormatter h f s) = root_logger s"
  "the_logger n (setFormatter h f s) = the_logger n s"
  by (simp_all add: setFormatter_def the_logger_def)

lemma bind_flush_fields [simp]:
  "default_handler (bind_flush h s) = default_handler s"
  "environ (bind_flush h s) = environ s"
  "emitted (bind_flush h s) = emitted s"
  "next_handler (bind_flush h s) = next_handler s"
  "root_logger (bind_flush h s) = root_logger s"
  "the_logger n (bind_flush h s) = the_logger n s"
  by (simp_all add: bind_flush_def the_logger_def)

lemma StreamHandler_fields [simp]:
  "fst (StreamHandler s) = Handler (next_handler s)"
  "default_handler (snd (StreamHandler s)) = default_handler s"
  "environ (snd (StreamHandler s)) = environ s"
  "emitted (snd (StreamHandler s)) = emitted s"
  "next_handler (snd (StreamHandler s)) = Suc (next_handler s)"
  "root_logger (snd (StreamHandler s)) = root_logger s"
  "the_logger n (snd (StreamHandler s)) = the_logger n s"
  by (simp_all add: StreamHandler_def the_logger_def)

lemma the_logger_record_updates [simp]:
  "the_logger n (s\<lparr>default_handler := d\<rparr>) = the_logger n s"
  "the_logger n (s\<lparr>sys_stderr := e\<rparr>) = the_logger n s"
  by (simp_all add: the_logger_def)



lemma level_after_step:
  "fst (get_default_logging_level (update_logger n f s)) = fst (get_default_logging_level s)"
  "fst (get_default_logging_level (bind_flush h s)) = fst (get_default_logging_level s)"
  "fst (get_default_logging_level (snd (StreamHandler s))) = fst (get_default_logging_level s)"
  "fst (get_default_logging_level (s\<lparr>default_handler := d\<rparr>)) = fst (get_default_logging_level s)"
  "fst (get_default_logging_level (s\<lparr>sys_stderr := e\<rparr>)) = fst (get_default_logging_level s)"
  by (rule level_depends_on_environ, simp)+

lemma emitted_after_step:
  "emitted (snd (get_default_logging_level (update_logger n f s))) =
     emitted (snd (get_default_logging_level s))"
  "emitted (snd (get_default_logging_level (bind_flush h s))) =
     emitted (snd (get_default_logging_level s))"
  "emitted (snd (get_default_logging_level (snd (StreamHandler s)))) =
     emitted (snd (get_default_logging_level s))"
  "emitted (snd (get_default_logging_level (s\<lparr>default_handler := d\<rparr>))) =
     emitted (snd (get_default_logging_level s))"
  "emitted (snd (get_default_logging_level (s\<lparr>sys_stderr := e\<rparr>))) =
     emitted (snd (get_default_logging_level s))"
  by (rule emitted_depends_on_environ, simp, simp)+

lemma configure_first_handler:
  "default_handler s = None \<Longrightarrow>
   default_handler (configure_library_root_logger s) = Some (Handler (next_handler s))"
  by (simp add: configure_library_root_logger_def Let_def split_beta)

lemma configure_first_handlers:
  "default_handler s = None \<Longrightarrow>
   lg_handlers (library_root_logger (configure_library_root_logger s)) =
     lg_handlers (addHandler (Handler (next_handler s)) (library_root_logger s))"
  by (simp add: configure_library_root_logger_def Let_def split_beta setLevel_def)

lemma configure_first_level:
  "default_handler s = None \<Longrightarrow>
   lg_level (library_root_logger (configure_library_root_logger s)) =
     fst (get_default_logging_level s)"
  by (simp add: configure_library_root_logger_def Let_def split_beta setLevel_def
      level_after_step)

lemma configure_first_propagate:
  "default_handler s = None \<Longrightarrow>
   lg_propagate (library_root_logger (configure_library_root_logger s)) = False"
  by (simp add: configure_library_root_logger_def Let_def split_beta)

lemma configure_first_emitted:
  "default_handler s = None \<Longrightarrow>
   emitted (configure_library_root_logger s) = emitted (snd (get_default_logging_level s))"
  by (simp add: configure_library_root_logger_def Let_def split_beta
      emitted_after_step)

lemma configure_first_next:
  "default_handler s = None \<Longrightarrow>
   next_handler (configure_library_root_logger s) = Suc (next_handler s)"
  by (simp add: configure_library_root_logger_def Let_def split_beta)

lemma configure_environ [simp]:
  "environ (configure_library_root_logger s) = environ s"
  by (cases "default_handler s") (simp_all add: configure_library_root_logger_def Let_def split_beta)

lemma configure_root_logger [simp]:
  "root_logger (configure_library_root_logger s) = root_logger s"
  by (cases "default_handler s") (simp_all add: configure_library_root_logger_def Let_def split_beta)

lemma configure_produces_handler:
  "default_handler (configure_library_root_logger s) \<noteq> None"
  by (cases "default_handler s") (simp_all add: configure_initialised configure_first_handler)

lemma configure_idempotent:
  "configure_library_root_logger (configure_library_root_logger s) =
     configure_library_root_logger s"
proof -
  obtain h where "default_handler (configure_library_root_logger s) = Some h"
    using configure_produces_handler [of s] by auto
  then show ?thesis by (rule configure_initialised)
qed

lemma set_verbosity_fields:
  "default_handler (set_verbosity v s) = default_handler (configure_library_root_logger s)"
  "lg_level (library_root_logger (set_verbosity v s)) = v"
  "lg_handlers (library_root_logger (set_verbosity v s)) =
     lg_handlers (library_root_logger (configure_library_root_logger s))"
  "lg_propagate (library_root_logger (set_verbosity v s)) =
     lg_propagate (library_root_logger (configure_library_root_logger s))"
  by (simp_all add: set_verbosity_def setLevel_def)

section \<open>What each operation does to the library root logger\<close>

lemma fold_setFormatter_fields [simp]:
  "default_handler (fold (\<lambda>h. setFormatter h f) hs s) = default_handler s"
  "next_handler (fold (\<lambda>h. setFormatter h f) hs s) = next_handler s"
  "emitted (fold (\<lambda>h. setFormatter h f) hs s) = emitted s"
  "the_logger n (fold (\<lambda>h. setFormatter h f) hs s) = the_logger n s"
  by (induction hs arbitrary: s) simp_all

lemma library_name_not_warnings [simp]:
  "get_library_name \<noteq> ''py.warnings''" "''py.warnings'' \<noteq> get_library_name"
  by (simp_all add: get_library_name_eq)

lemma the_logger_warnings_captured [simp]:
  "the_logger n (s\<lparr>warnings_captured := c\<rparr>) = the_logger n s"
  by (simp add: the_logger_def)

lemma removeHandler_absent: "h \<notin> set (lg_handlers l) \<Longrightarrow> removeHandler h l = l"
  by (simp add: removeHandler_def)

lemma library_logger_after:
  "library_root_logger (snd (get_logger name s)) =
     library_root_logger (configure_library_root_logger s)"
  "library_root_logger (snd (get_verbosity s)) =
     library_root_logger (configure_library_root_logger s)"
  "library_root_logger (set_verbosity v s) =
     setLevel v (library_root_logger (configure_library_root_logger s))"
  "library_root_logger (final (add_handler None s)) =
     library_root_logger (configure_library_root_logger s)"
  "library_root_logger (final (add_handler (Some h) s)) =
     addHandler h (library_root_logger (configure_library_root_logger s))"
  "library_root_logger (final (remove_handler ho s)) =
     library_root_logger (configure_library_root_logger s)"
  "library_root_logger (disable_propagation s) =
     (library_root_logger (configure_library_root_logger s))\<lparr>lg_propagate := False\<rparr>"
  "library_root_logger (enable_propagation s) =
     (library_root_logger (configure_library_root_logger s))\<lparr>lg_propagate := True\<rparr>"
  "library_root_logger (enable_explicit_format s) = library_root_logger s"
  "library_root_logger (reset_format s) = library_root_logger s"
  "library_root_logger (captureWarnings capture s) =
     library_root_logger (configure_library_root_logger s)"
  by (simp_all add: get_logger_def logging_getLogger_def get_verbosity_def set_verbosity_def add_handler_def
      remove_handler_def disable_propagation_def enable_propagation_def
      enable_explicit_format_def reset_format_def captureWarnings_def Let_def
      removeHandler_absent
      split: option.splits)


lemma library_logger_after_default:
  "default_handler (configure_library_root_logger s) = Some h \<Longrightarrow>
   library_root_logger (final (disable_default_handler s)) =
     removeHandler h (library_root_logger (configure_library_root_logger s))"
  "default_handler (configure_library_root_logger s) = Some h \<Longrightarrow>
   library_root_logger (final (enable_default_handler s)) =
     addHandler h (library_root_logger (configure_library_root_logger s))"
  by (simp_all add: disable_default_handler_def enable_default_handler_def Let_def)

lemma library_logger_after_reset:
  "library_root_logger (reset_library_root_logger s) =
     (case default_handler s of
        None \<Rightarrow> library_root_logger s
      | Some h \<Rightarrow> setLevel NOTSET (removeHandler h (library_root_logger s)))"
  by (simp add: reset_library_root_logger_def Let_def the_logger_def update_logger_def
      split: option.splits)

lemma default_handler_after:
  "default_handler (snd (get_logger name s)) = default_handler (configure_library_root_logger s)"
  "default_handler (snd (get_verbosity s)) = default_handler (configure_library_root_logger s)"
  "default_handler (final (disable_default_handler s)) =
     default_handler (configure_library_root_logger s)"
  "default_handler (final (enable_default_handler s)) =
     default_handler (configure_library_root_logger s)"
  "default_handler (final (add_handler ho s)) = default_handler (configure_library_root_logger s)"
  "default_handler (final (remove_handler ho s)) =
     default_handler (configure_library_root_logger s)"
  "default_handler (disable_propagation s) = default_handler (configure_library_root_logger s)"
  "default_handler (enable_propagation s) = default_handler (configure_library_root_logger s)"
  "default_handler (enable_explicit_format s) = default_handler s"
  "default_handler (reset_format s) = default_handler s"
  "default_handler (captureWarnings capture s) =
     default_handler (configure_library_root_logger s)"
  "default_handler (reset_library_root_logger s) = None"
  by (simp_all add: get_logger_def logging_getLogger_def get_verbosity_def add_handler_def
      remove_handler_def disable_propagation_def enable_propagation_def
      enable_explicit_format_def reset_format_def captureWarnings_def Let_def
      disable_default_handler_def enable_default_handler_def reset_library_root_logger_def
      split: option.splits)

lemma library_handlers_configure:
  "lg_handlers (library_root_logger (configure_library_root_logger s)) =
     (case default_handler s of
        Some h \<Rightarrow> lg_handlers (library_root_logger s)
      | None \<Rightarrow> lg_handlers (addHandler (Handler (next_handler s)) (library_root_logger s)))"
  by (simp add: configure_initialised configure_first_handlers split: option.splits)

lemma library_propagate_configure:
  "lg_propagate (library_root_logger (configure_library_root_logger s)) =
     (case default_handler s of
        Some h \<Rightarrow> lg_propagate (library_root_logger s)
      | None \<Rightarrow> False)"
  by (simp add: configure_initialised configure_first_propagate split: option.splits)

lemma distinct_configure:
  "distinct (lg_handlers (library_root_logger s)) \<Longrightarrow>
   distinct (lg_handlers (library_root_logger (configure_library_root_logger s)))"
  by (simp add: library_handlers_configure distinct_addHandler split: option.splits)

lemma count_list_distinct: "distinct xs \<Longrightarrow> count_list xs x \<le> 1"
  by (induction xs) (auto simp: count_list_0_iff)

lemma getLogger_update_logger [simp]: "getLogger n (update_logger n f s) = update_logger n f s"
  by (simp add: getLogger_def update_logger_def)

lemma distinct_perform:
  assumes "distinct (lg_handlers (library_root_logger s))"
  shows "distinct (lg_handlers (library_root_logger (perform op s)))"
proof -
  note cfg = distinct_configure [OF assms]
  obtain h where h: "default_handler (configure_library_root_logger s) = Some h"
    using configure_produces_handler [of s] by auto
  show ?thesis
  proof (cases op)
    case Reset
    then show ?thesis
      using assms
      by (simp add: library_logger_after_reset setLevel_def distinct_removeHandler
          split: option.splits)
  next
    case Disable_default_handler
    then show ?thesis
      using cfg by (simp add: library_logger_after_default(1) [OF h] distinct_removeHandler)
  next
    case Enable_default_handler
    then show ?thesis
      using cfg by (simp add: library_logger_after_default(2) [OF h] distinct_addHandler)
  next
    case (Add_handler ho)
    then show ?thesis
      using cfg by (cases ho) (simp_all add: library_logger_after distinct_addHandler)
  qed (use assms cfg in \<open>simp_all add: library_logger_after setLevel_def
        set_verbosity_info_def set_verbosity_warning_def set_verbosity_debug_def
        set_verbosity_error_def\<close>)
qed

lemma propagate_perform:
  assumes "\<not> lg_propagate (library_root_logger s)" "op \<noteq> Enable_propagation"
  shows "\<not> lg_propagate (library_root_logger (perform op s))"
proof -
  have cfg: "\<not> lg_propagate (library_root_logger (configure_library_root_logger s))"
    using assms(1) by (simp add: library_propagate_configure split: option.splits)
  obtain h where h: "default_handler (configure_library_root_logger s) = Some h"
    using configure_produces_handler [of s] by auto
  show ?thesis
  proof (cases op)
    case Reset
    then show ?thesis
      using assms(1)
      by (simp add: library_logger_after_reset setLevel_def removeHandler_def
          split: option.splits)
  next
    case Disable_default_handler
    then show ?thesis
      using cfg by (simp add: library_logger_after_default(1) [OF h] removeHandler_def)
  next
    case Enable_default_handler
    then show ?thesis
      using cfg by (simp add: library_logger_after_default(2) [OF h] addHandler_def)
  next
    case (Add_handler ho)
    then show ?thesis
      using cfg by (cases ho) (simp_all add: library_logger_after addHandler_def)
  qed (use assms cfg in \<open>simp_all add: library_logger_after setLevel_def
        set_verbosity_info_def set_verbosity_warning_def set_verbosity_debug_def
        set_verbosity_error_def\<close>)
qed

lemma perform_after_configure:
  "triggers_initialization op \<Longrightarrow>
   perform op (configure_library_root_logger s) = perform op s"
  by (cases op)
    (simp_all add: configure_idempotent get_logger_def logging_getLogger_def get_verbosity_def set_verbosity_def
      set_verbosity_info_def set_verbosity_warning_def set_verbosity_debug_def
      set_verbosity_error_def disable_default_handler_def enable_default_handler_def
      add_handler_def remove_handler_def disable_propagation_def enable_propagation_def
      captureWarnings_def)

lemma toggle_returns:
  "\<not> raises (disable_default_handler s)" "\<not> raises (enable_default_handler s)"
proof -
  obtain h where h: "default_handler (configure_library_root_logger s) = Some h"
    using configure_produces_handler [of s] by auto
  show "\<not> raises (disable_default_handler s)" "\<not> raises (enable_default_handler s)"
    by (simp_all add: h disable_default_handler_def enable_default_handler_def Let_def)
qed

lemma toggle_keeps_objects:
  "default_handler s = Some h \<Longrightarrow>
   next_handler (final (enable_default_handler s)) = next_handler s
   \<and> handler_objs (final (enable_default_handler s)) = handler_objs s
   \<and> next_handler (final (disable_default_handler s)) = next_handler s
   \<and> handler_objs (final (disable_default_handler s)) = handler_objs s"
  by (simp add: configure_initialised enable_default_handler_def disable_default_handler_def
      Let_def update_logger_def)


lemma distinct_run:
  "distinct (lg_handlers (library_root_logger s)) \<Longrightarrow>
   distinct (lg_handlers (library_root_logger (fold perform ops s)))"
  by (induction ops arbitrary: s) (simp_all add: distinct_perform)

lemma distinct_fresh_process:
  "distinct (lg_handlers (library_root_logger (fresh_process env)))"
  by (simp add: fresh_process_def the_logger_def new_logger_def)

lemma join_names:
  "join '', '' (map fst log_levels) = ''detail, debug, info, warning, error, critical''"
  by (simp add: log_levels_def)

lemma default_level_unrecognised:
  "environ s ''TRANSFORMERS_VERBOSITY'' = Some v \<Longrightarrow> v \<notin> set (map fst log_levels) \<Longrightarrow>
   fst (get_default_logging_level s) = WARNING"
proof -
  assume e: "environ s ''TRANSFORMERS_VERBOSITY'' = Some v" and "v \<notin> set (map fst log_levels)"
  then have "map_of log_levels v = None"
    by (simp add: map_of_eq_None_iff)
  then show ?thesis
    using e by (simp add: get_default_logging_level_def default_log_level_def)
qed

lemma warning_unrecognised:
  "environ s ''TRANSFORMERS_VERBOSITY'' = Some v \<Longrightarrow> v \<notin> set (map fst log_levels) \<Longrightarrow>
   emitted (snd (get_default_logging_level s)) =
     (if v \<noteq> [] then emitted s @ [(Root, WARNING, [AStr (unknown_option_message v)], [])]
      else emitted s)"
proof -
  assume e: "environ s ''TRANSFORMERS_VERBOSITY'' = Some v" and "v \<notin> set (map fst log_levels)"
  then have "map_of log_levels v = None"
    by (simp add: map_of_eq_None_iff)
  then show ?thesis
    using e by (simp add: get_default_logging_level_def Logger_warning_def emitted_log_at_level)
qed

section \<open>The memo table of the once-only warnings\<close>

lemma cache_steps [simp]:
  "warning_once_cache (update_logger n f s) = warning_once_cache s"
  "warning_once_cache (getLogger n s) = warning_once_cache s"
  "warning_once_cache (setFormatter h fm s) = warning_once_cache s"
  "warning_once_cache (bind_flush h s) = warning_once_cache s"
  "warning_once_cache (snd (StreamHandler s)) = warning_once_cache s"
  "warning_once_cache (snd (get_default_logging_level s)) = warning_once_cache s"
  "warning_once_cache (fold (\<lambda>h. setFormatter h fm) hs s) = warning_once_cache s"
  "warning_once_cache (final (Logger_warning self args kw s)) = warning_once_cache s"
  "warning_once_cache (final (Logger_info self args kw s)) = warning_once_cache s"
proof -
  show "warning_once_cache (fold (\<lambda>h. setFormatter h fm) hs s) = warning_once_cache s"
    by (induction hs arbitrary: s) (simp_all add: setFormatter_def)
qed (simp_all add: update_logger_def getLogger_def setFormatter_def bind_flush_def
    StreamHandler_def get_default_logging_level_def Logger_warning_def Logger_info_def
    split: option.splits)

lemma cache_configure [simp]:
  "warning_once_cache (configure_library_root_logger s) = warning_once_cache s"
  by (cases "default_handler s")
    (simp_all add: configure_library_root_logger_def Let_def split_beta)














lemma records_steps [simp]:
  "log_records (update_logger n f s) = log_records s"
  "log_records (getLogger n s) = log_records s"
  "log_records (setFormatter h fm s) = log_records s"
  "log_records (bind_flush h s) = log_records s"
  "log_records (snd (StreamHandler s)) = log_records s"
  by (simp_all add: update_logger_def getLogger_def setFormatter_def bind_flush_def
      StreamHandler_def split: option.splits)



section \<open>The claims\<close>

text \<open>
  C10. The assertion \<^verbatim>\<open>_default_handler is not None\<close> in \<^verbatim>\<open>enable_default_handler\<close> and
  \<^verbatim>\<open>disable_default_handler\<close> cannot fail: both run the lazy initialiser first, and after
  it the default handler exists, whatever the state was. Neither operation raises.
\<close>

theorem default_handler_assertion_holds:
  "default_handler (configure_library_root_logger s) \<noteq> None
   \<and> \<not> raises (disable_default_handler s)
   \<and> \<not> raises (enable_default_handler s)"
proof -
  obtain h where h: "default_handler (configure_library_root_logger s) = Some h"
    using configure_produces_handler [of s] by auto
  show ?thesis
    by (simp add: h disable_default_handler_def enable_default_handler_def Let_def)
qed

text \<open>
  C2. For each of the five named levels, \<^verbatim>\<open>set_verbosity\<close> with that level followed by
  \<^verbatim>\<open>get_verbosity\<close> returns the same level, from any state.
\<close>

theorem verbosity_round_trip:
  "v \<in> set named_levels \<Longrightarrow> fst (get_verbosity (set_verbosity v s)) = v"
proof -
  assume v: "v \<in> set named_levels"
  then have nz: "v \<noteq> 0"
    by (auto simp: named_levels_def DEBUG_def INFO_def WARNING_def ERROR_def CRITICAL_def)
  obtain h where h: "default_handler (set_verbosity v s) = Some h"
    using configure_produces_handler [of s] by (auto simp: set_verbosity_fields)
  have "configure_library_root_logger (set_verbosity v s) = set_verbosity v s"
    using h by (rule configure_initialised)
  then show ?thesis
    using nz by (simp add: get_verbosity_def Let_def getEffectiveLevel_own_level set_verbosity_fields)
qed

theorem verbosity_round_trip_witness:
  "ERROR \<in> set named_levels
   \<and> fst (get_verbosity (set_verbosity ERROR (fresh_process Map.empty))) = ERROR"
  using verbosity_round_trip [of ERROR "fresh_process Map.empty"]
  by (simp add: named_levels_def)

text \<open>
  C9. Right after the first initialisation of the library root logger its propagation
  flag is false, whichever initialising operation triggered it (other than
  \<^verbatim>\<open>enable_propagation\<close> itself), and no operation other than \<^verbatim>\<open>enable_propagation\<close>
  makes a false flag true.
\<close>

theorem propagation_disabled_after_initialization:
  "(default_handler s = None \<longrightarrow>
      \<not> lg_propagate (library_root_logger (configure_library_root_logger s)))
   \<and> (default_handler s = None \<and> triggers_initialization op \<and> op \<noteq> Enable_propagation \<longrightarrow>
      \<not> lg_propagate (library_root_logger (perform op s)))
   \<and> (\<not> lg_propagate (library_root_logger s) \<and> op \<noteq> Enable_propagation \<longrightarrow>
      \<not> lg_propagate (library_root_logger (perform op s)))"
proof (intro conjI impI)
  assume "default_handler s = None"
  then show "\<not> lg_propagate (library_root_logger (configure_library_root_logger s))"
    by (simp add: configure_first_propagate)
next
  assume a: "default_handler s = None \<and> triggers_initialization op \<and> op \<noteq> Enable_propagation"
  then have "\<not> lg_propagate (library_root_logger (configure_library_root_logger s))"
    by (simp add: configure_first_propagate)
  then have "\<not> lg_propagate (library_root_logger (perform op (configure_library_root_logger s)))"
    using a by (intro propagate_perform) simp_all
  then show "\<not> lg_propagate (library_root_logger (perform op s))"
    using a by (simp add: perform_after_configure)
next
  assume "\<not> lg_propagate (library_root_logger s) \<and> op \<noteq> Enable_propagation"
  then show "\<not> lg_propagate (library_root_logger (perform op s))"
    by (simp add: propagate_perform)
qed

theorem propagation_disabled_after_initialization_witness:
  "default_handler (fresh_process Map.empty) = None
   \<and> triggers_initialization Get_verbosity
   \<and> Get_verbosity \<noteq> Enable_propagation
   \<and> \<not> lg_propagate (library_root_logger
          (configure_library_root_logger (fresh_process Map.empty)))
   \<and> \<not> lg_propagate (library_root_logger (perform Get_verbosity (fresh_process Map.empty)))
   \<and> \<not> lg_propagate (library_root_logger
          (perform (Set_verbosity INFO) (perform Get_verbosity (fresh_process Map.empty))))"
  using propagation_disabled_after_initialization [of "fresh_process Map.empty" Get_verbosity]
    propagation_disabled_after_initialization
      [of "perform Get_verbosity (fresh_process Map.empty)" "Set_verbosity INFO"]
  by (simp add: fresh_process_def)

text \<open>
  C4. In an initialised state (the default handler exists; the host keeps a logger's
  handler list free of duplicates), \<^verbatim>\<open>disable_default_handler\<close> returns and leaves the
  default handler outside the handler list of the library root logger, and a following
  \<^verbatim>\<open>enable_default_handler\<close> returns and leaves the same handler in the list.
\<close>

theorem default_handler_toggle:
  assumes "default_handler s = Some h"
    and "distinct (lg_handlers (library_root_logger s))"
  shows "\<not> raises (disable_default_handler s)
     \<and> default_handler (final (disable_default_handler s)) = Some h
     \<and> h \<notin> set (lg_handlers (library_root_logger (final (disable_default_handler s))))
     \<and> \<not> raises (enable_default_handler (final (disable_default_handler s)))
     \<and> default_handler (final (enable_default_handler (final (disable_default_handler s)))) =
          Some h
     \<and> h \<in> set (lg_handlers (library_root_logger
          (final (enable_default_handler (final (disable_default_handler s))))))"
proof -
  let ?d = "final (disable_default_handler s)"
  have cfg: "configure_library_root_logger s = s"
    using assms(1) by (rule configure_initialised)
  have d: "default_handler ?d = Some h"
    using assms(1) by (simp add: default_handler_after cfg)
  have cfg': "default_handler (configure_library_root_logger ?d) = Some h"
    using d by (simp add: configure_initialised)
  have "library_root_logger ?d = removeHandler h (library_root_logger s)"
    using library_logger_after_default(1) [of s h] assms(1) by (simp add: cfg)
  then have out: "h \<notin> set (lg_handlers (library_root_logger ?d))"
    using assms(2) by (simp add: not_member_removeHandler)
  have "library_root_logger (final (enable_default_handler ?d)) =
          addHandler h (library_root_logger (configure_library_root_logger ?d))"
    using cfg' by (rule library_logger_after_default(2))
  then have again: "h \<in> set (lg_handlers (library_root_logger (final (enable_default_handler ?d))))"
    by (simp add: member_addHandler)
  have e: "default_handler (final (enable_default_handler ?d)) = Some h"
    using cfg' by (simp add: default_handler_after)
  show ?thesis
    using d out again e toggle_returns [of s] toggle_returns [of ?d] by simp
qed

theorem default_handler_toggle_witness:
  "default_handler (configure_library_root_logger (fresh_process Map.empty)) = Some (Handler 0)
   \<and> distinct (lg_handlers (library_root_logger
        (configure_library_root_logger (fresh_process Map.empty))))
   \<and> Handler 0 \<in> set (lg_handlers (library_root_logger
        (configure_library_root_logger (fresh_process Map.empty))))
   \<and> Handler 0 \<notin> set (lg_handlers (library_root_logger
        (final (disable_default_handler
          (configure_library_root_logger (fresh_process Map.empty))))))
   \<and> Handler 0 \<in> set (lg_handlers (library_root_logger
        (final (enable_default_handler (final (disable_default_handler
          (configure_library_root_logger (fresh_process Map.empty))))))))"
proof -
  let ?s = "configure_library_root_logger (fresh_process Map.empty)"
  have n: "default_handler (fresh_process Map.empty) = None"
    and z: "next_handler (fresh_process Map.empty) = 0"
    and l: "library_root_logger (fresh_process Map.empty) = new_logger"
    by (simp_all add: fresh_process_def the_logger_def)
  have h: "default_handler ?s = Some (Handler 0)"
    using configure_first_handler [OF n] by (simp add: z)
  have hs: "lg_handlers (library_root_logger ?s) = [Handler 0]"
    using configure_first_handlers [OF n] by (simp add: z l addHandler_def new_logger_def)
  have dist: "distinct (lg_handlers (library_root_logger ?s))"
    by (simp add: hs)
  show ?thesis
    using default_handler_toggle [OF h dist] h hs by simp
qed

text \<open>
  C8. The lazy initialiser is a no-operation once the default handler exists. Every
  controller operation keeps the handler list of the library root logger free of
  duplicates, so the default handler is attached at most once after it; the same holds
  after any sequence of controller operations in a fresh process. Enabling and disabling
  the default handler keep the handler that exists: none is created and no handler object
  changes. They toggle its attachment: enabling appends it to the handler list unless it
  is there, disabling takes it out of the list.
\<close>

theorem default_handler_attached_at_most_once:
  "(default_handler s \<noteq> None \<longrightarrow> configure_library_root_logger s = s)
   \<and> (distinct (lg_handlers (library_root_logger s)) \<longrightarrow>
        distinct (lg_handlers (library_root_logger (perform op s)))
        \<and> (\<forall>d. default_handler (perform op s) = Some d \<longrightarrow>
              count_list (lg_handlers (library_root_logger (perform op s))) d \<le> 1))
   \<and> count_list (lg_handlers (library_root_logger (fold perform ops (fresh_process env)))) d'
        \<le> 1
   \<and> (default_handler s = Some h \<longrightarrow>
        default_handler (final (enable_default_handler s)) = Some h
        \<and> default_handler (final (disable_default_handler s)) = Some h
        \<and> next_handler (final (enable_default_handler s)) = next_handler s
        \<and> next_handler (final (disable_default_handler s)) = next_handler s
        \<and> handler_objs (final (enable_default_handler s)) = handler_objs s
        \<and> handler_objs (final (disable_default_handler s)) = handler_objs s
        \<and> lg_handlers (library_root_logger (final (enable_default_handler s))) =
            (if h \<in> set (lg_handlers (library_root_logger s))
             then lg_handlers (library_root_logger s)
             else lg_handlers (library_root_logger s) @ [h])
        \<and> lg_handlers (library_root_logger (final (disable_default_handler s))) =
            remove1 h (lg_handlers (library_root_logger s))
        \<and> h \<in> set (lg_handlers (library_root_logger (final (enable_default_handler s))))
        \<and> (distinct (lg_handlers (library_root_logger s)) \<longrightarrow>
             h \<notin> set (lg_handlers (library_root_logger (final (disable_default_handler s))))))"
proof (intro conjI impI allI)
  assume "default_handler s \<noteq> None"
  then show "configure_library_root_logger s = s"
    by (auto simp: configure_initialised)
next
  assume "distinct (lg_handlers (library_root_logger s))"
  then show "distinct (lg_handlers (library_root_logger (perform op s)))"
    by (rule distinct_perform)
next
  fix d
  assume "distinct (lg_handlers (library_root_logger s))"
  then have "distinct (lg_handlers (library_root_logger (perform op s)))"
    by (rule distinct_perform)
  then show "count_list (lg_handlers (library_root_logger (perform op s))) d \<le> 1"
    by (rule count_list_distinct)
next
  have "distinct (lg_handlers (library_root_logger (fold perform ops (fresh_process env))))"
    using distinct_fresh_process by (rule distinct_run)
  then show "count_list (lg_handlers (library_root_logger (fold perform ops (fresh_process env))))
      d' \<le> 1"
    by (rule count_list_distinct)
next
  assume h: "default_handler s = Some h"
  then have cfg: "configure_library_root_logger s = s"
    by (rule configure_initialised)
  show "default_handler (final (enable_default_handler s)) = Some h"
    "default_handler (final (disable_default_handler s)) = Some h"
    using h by (simp_all add: default_handler_after cfg)
  show "next_handler (final (enable_default_handler s)) = next_handler s"
    "next_handler (final (disable_default_handler s)) = next_handler s"
    "handler_objs (final (enable_default_handler s)) = handler_objs s"
    "handler_objs (final (disable_default_handler s)) = handler_objs s"
    using toggle_keeps_objects [OF h] by simp_all
  have en: "library_root_logger (final (enable_default_handler s)) =
      addHandler h (library_root_logger s)"
    using library_logger_after_default(2) [of s h] h by (simp add: cfg)
  have dis: "library_root_logger (final (disable_default_handler s)) =
      removeHandler h (library_root_logger s)"
    using library_logger_after_default(1) [of s h] h by (simp add: cfg)
  show "lg_handlers (library_root_logger (final (enable_default_handler s))) =
      (if h \<in> set (lg_handlers (library_root_logger s))
       then lg_handlers (library_root_logger s)
       else lg_handlers (library_root_logger s) @ [h])"
    by (simp add: en addHandler_def)
  show "lg_handlers (library_root_logger (final (disable_default_handler s))) =
      remove1 h (lg_handlers (library_root_logger s))"
    by (simp add: dis removeHandler_def remove1_idem)
  show "h \<in> set (lg_handlers (library_root_logger (final (enable_default_handler s))))"
    by (simp add: en member_addHandler)
  show "h \<notin> set (lg_handlers (library_root_logger (final (disable_default_handler s))))"
    if "distinct (lg_handlers (library_root_logger s))"
    using that by (simp add: dis not_member_removeHandler)
qed

theorem default_handler_attached_at_most_once_witness:
  "default_handler (configure_library_root_logger (fresh_process Map.empty)) = Some (Handler 0)
   \<and> distinct (lg_handlers (library_root_logger
         (configure_library_root_logger (fresh_process Map.empty))))
   \<and> configure_library_root_logger (configure_library_root_logger (fresh_process Map.empty)) =
        configure_library_root_logger (fresh_process Map.empty)
   \<and> count_list (lg_handlers (library_root_logger (perform Enable_default_handler
         (configure_library_root_logger (fresh_process Map.empty))))) (Handler 0) \<le> 1
   \<and> default_handler (final (enable_default_handler
         (configure_library_root_logger (fresh_process Map.empty)))) = Some (Handler 0)
   \<and> next_handler (final (enable_default_handler
         (configure_library_root_logger (fresh_process Map.empty)))) = 1
   \<and> lg_handlers (library_root_logger (final (disable_default_handler
         (configure_library_root_logger (fresh_process Map.empty))))) = []
   \<and> lg_handlers (library_root_logger (final (enable_default_handler
         (final (disable_default_handler
           (configure_library_root_logger (fresh_process Map.empty))))))) = [Handler 0]"
proof -
  let ?s = "configure_library_root_logger (fresh_process Map.empty)"
  have n: "default_handler (fresh_process Map.empty) = None"
    and z: "next_handler (fresh_process Map.empty) = 0"
    and l: "library_root_logger (fresh_process Map.empty) = new_logger"
    by (simp_all add: fresh_process_def the_logger_def)
  have h: "default_handler ?s = Some (Handler 0)"
    using configure_first_handler [OF n] by (simp add: z)
  have hs: "lg_handlers (library_root_logger ?s) = [Handler 0]"
    using configure_first_handlers [OF n] by (simp add: z l addHandler_def new_logger_def)
  have nx: "next_handler ?s = 1"
    using configure_first_next [OF n] by (simp add: z)
  have e: "default_handler (perform Enable_default_handler ?s) = Some (Handler 0)"
    using h by (simp add: default_handler_after configure_idempotent)
  have d: "default_handler (final (disable_default_handler ?s)) = Some (Handler 0)"
    using h by (simp add: default_handler_after configure_idempotent)
  have off: "lg_handlers (library_root_logger (final (disable_default_handler ?s))) = []"
    using default_handler_attached_at_most_once
      [where s = ?s and op = Enable_default_handler and h = "Handler 0"] h hs by simp
  have on: "lg_handlers (library_root_logger (final (enable_default_handler
      (final (disable_default_handler ?s))))) = [Handler 0]"
    using default_handler_attached_at_most_once
      [where s = "final (disable_default_handler ?s)" and op = Enable_default_handler
        and h = "Handler 0"] d off by simp
  show ?thesis
    using default_handler_attached_at_most_once
      [where s = ?s and op = Enable_default_handler and h = "Handler 0"]
      h hs nx e off on by simp
qed

text \<open>
  C1. What the code does where the claim asks for a detachment: \<^verbatim>\<open>remove_handler\<close> of a
  handler that \<^verbatim>\<open>add_handler\<close> has just attached raises \<^verbatim>\<open>AssertionError\<close> and leaves
  the handler attached; no call of \<^verbatim>\<open>remove_handler\<close> changes the handler list; and a
  handler that is not attached (handler 5 in a fresh process) passes the assertion.
\<close>

theorem remove_handler_rejects_attached:
  "remove_handler (Some h) (final (add_handler (Some h) s)) =
     Raises AssertionError (final (add_handler (Some h) s))
   \<and> h \<in> set (lg_handlers (library_root_logger (final (add_handler (Some h) s))))
   \<and> lg_handlers (library_root_logger (final (remove_handler ho s))) =
       lg_handlers (library_root_logger (configure_library_root_logger s))
   \<and> \<not> raises (remove_handler (Some (Handler 5)) (fresh_process Map.empty))"
proof -
  let ?a = "final (add_handler (Some h) s)"
  have a: "?a = update_logger get_library_name (addHandler h) (configure_library_root_logger s)"
    by (simp add: add_handler_def Let_def)
  obtain d where "default_handler ?a = Some d"
    using configure_produces_handler [of s] by (auto simp: default_handler_after)
  then have cfg: "configure_library_root_logger ?a = ?a"
    by (rule configure_initialised)
  have m: "h \<in> set (lg_handlers (library_root_logger ?a))"
    by (simp add: library_logger_after member_addHandler)
  have g: "getLogger get_library_name ?a = ?a"
    by (simp add: a)
  have r: "remove_handler (Some h) ?a = Raises AssertionError ?a"
    unfolding remove_handler_def Let_def cfg using m g by simp
  have n: "default_handler (fresh_process Map.empty) = None"
    and z: "next_handler (fresh_process Map.empty) = 0"
    and l: "library_root_logger (fresh_process Map.empty) = new_logger"
    by (simp_all add: fresh_process_def the_logger_def)
  have "lg_handlers (library_root_logger (configure_library_root_logger (fresh_process Map.empty)))
          = [Handler 0]"
    using configure_first_handlers [OF n] by (simp add: z l addHandler_def new_logger_def)
  then have f: "\<not> raises (remove_handler (Some (Handler 5)) (fresh_process Map.empty))"
    by (simp add: remove_handler_def Let_def)
  show ?thesis
    using r m f by (simp add: library_logger_after)
qed

text \<open>
  C3. The claim as stated fails for the empty string: \<^verbatim>\<open>TRANSFORMERS_VERBOSITY\<close> is set,
  its value is not a recognised name, and the first initialisation hands no warning to
  any logger, because \<^verbatim>\<open>if env_level_str:\<close> skips the lookup for an empty value.
\<close>

theorem empty_verbosity_is_silent:
  "environ (fresh_process [''TRANSFORMERS_VERBOSITY'' \<mapsto> []]) ''TRANSFORMERS_VERBOSITY'' = Some []
   \<and> [] \<notin> set (map fst log_levels)
   \<and> emitted (configure_library_root_logger
        (fresh_process [''TRANSFORMERS_VERBOSITY'' \<mapsto> []])) = []"
proof -
  let ?s = "fresh_process [''TRANSFORMERS_VERBOSITY'' \<mapsto> []]"
  have n: "default_handler ?s = None"
    and e: "environ ?s ''TRANSFORMERS_VERBOSITY'' = Some []"
    and m: "emitted ?s = []"
    by (simp_all add: fresh_process_def)
  have u: "[] \<notin> set (map fst log_levels)"
    by (simp add: log_levels_def)
  have "emitted (configure_library_root_logger ?s) = []"
    using warning_unrecognised [OF e u] by (simp add: configure_first_emitted [OF n] m)
  then show ?thesis
    using e u by simp
qed

text \<open>
  C3, as the code has it. When the first initialisation runs with \<^verbatim>\<open>TRANSFORMERS_VERBOSITY\<close>
  set to a value that is not a recognised name, it ends with the default handler created
  and the library root logger at level \<^verbatim>\<open>WARNING\<close>; when the value is not empty, exactly
  one warning is handed to the root logger of the host, whose text lists the six valid
  names; when the value is empty, nothing is emitted.
\<close>

theorem unknown_verbosity_warns:
  assumes "default_handler s = None"
    and "environ s ''TRANSFORMERS_VERBOSITY'' = Some v"
    and "v \<notin> set (map fst log_levels)"
  shows "default_handler (configure_library_root_logger s) \<noteq> None
     \<and> lg_level (library_root_logger (configure_library_root_logger s)) = WARNING
     \<and> (v \<noteq> [] \<longrightarrow>
          emitted (configure_library_root_logger s) =
            emitted s @ [(Root, WARNING, [AStr (unknown_option_message v)], [])]
          \<and> unknown_option_message v =
              ''Unknown option TRANSFORMERS_VERBOSITY='' @ v
                @ '', has to be one of: detail, debug, info, warning, error, critical'')
     \<and> (v = [] \<longrightarrow> emitted (configure_library_root_logger s) = emitted s)"
proof -
  have lvl: "lg_level (library_root_logger (configure_library_root_logger s)) = WARNING"
    using default_level_unrecognised [OF assms(2,3)]
    by (simp add: configure_first_level [OF assms(1)])
  have em: "emitted (configure_library_root_logger s) =
      (if v \<noteq> [] then emitted s @ [(Root, WARNING, [AStr (unknown_option_message v)], [])]
       else emitted s)"
    using warning_unrecognised [OF assms(2,3)]
    by (simp add: configure_first_emitted [OF assms(1)])
  show ?thesis
    using lvl em
    by (simp add: configure_produces_handler unknown_option_message_def join_names)
qed

theorem unknown_verbosity_warns_witness:
  "default_handler (fresh_process [''TRANSFORMERS_VERBOSITY'' \<mapsto> ''verbose'']) = None
   \<and> ''verbose'' \<notin> set (map fst log_levels)
   \<and> lg_level (library_root_logger (configure_library_root_logger
        (fresh_process [''TRANSFORMERS_VERBOSITY'' \<mapsto> ''verbose'']))) = WARNING
   \<and> emitted (configure_library_root_logger
        (fresh_process [''TRANSFORMERS_VERBOSITY'' \<mapsto> ''verbose''])) =
      [(Root, WARNING,
        [AStr (''Unknown option TRANSFORMERS_VERBOSITY=verbose, ''
           @ ''has to be one of: detail, debug, info, warning, error, critical'')], [])]"
proof -
  let ?s = "fresh_process [''TRANSFORMERS_VERBOSITY'' \<mapsto> ''verbose'']"
  have n: "default_handler ?s = None"
    and e: "environ ?s ''TRANSFORMERS_VERBOSITY'' = Some ''verbose''"
    and m: "emitted ?s = []"
    by (simp_all add: fresh_process_def)
  have u: "''verbose'' \<notin> set (map fst log_levels)"
    by (simp add: log_levels_def)
  show ?thesis
    using unknown_verbosity_warns [OF n e u] n u m by simp
qed

text \<open>
  C6. With \<^verbatim>\<open>TRANSFORMERS_NO_ADVISORY_WARNINGS\<close> set to a true (non-empty) value,
  \<^verbatim>\<open>warning_advice\<close> changes nothing, whatever its arguments (it raises only for a keyword
  called \<^verbatim>\<open>self\<close>, and changes nothing then either); with the variable unset it is
  \<^verbatim>\<open>Logger.warning\<close> with the same arguments.
\<close>

theorem advisory_warning_gate:
  "(environ s ''TRANSFORMERS_NO_ADVISORY_WARNINGS'' = Some v \<and> v \<noteq> [] \<longrightarrow>
      final (warning_advice self args kw s) = s
      \<and> raises (warning_advice self args kw s) = (''self'' \<in> fst ` set kw))
   \<and> (environ s ''TRANSFORMERS_NO_ADVISORY_WARNINGS'' = None \<longrightarrow>
      warning_advice self args kw s = Logger_warning self args kw s)"
  by (simp add: warning_advice_def Logger_warning_def log_at_level_def accepts_message_def)

theorem advisory_warning_gate_witness:
  "emitted (final (warning_advice (Named ''src'') [AStr ''X''] []
      (fresh_process [''TRANSFORMERS_NO_ADVISORY_WARNINGS'' \<mapsto> ''1'']))) = []
   \<and> log_records (final (warning_advice (Named ''src'') [AStr ''X''] []
      (fresh_process [''TRANSFORMERS_NO_ADVISORY_WARNINGS'' \<mapsto> ''1'']))) = []
   \<and> emitted (final (warning_advice (Named ''src'') [AStr ''X''] [] (fresh_process Map.empty))) =
       [(Named ''src'', WARNING, [AStr ''X''], [])]"
  using advisory_warning_gate
      [of "fresh_process [''TRANSFORMERS_NO_ADVISORY_WARNINGS'' \<mapsto> ''1'']" "''1''"
        "Named ''src''" "[AStr ''X'']" "[]"]
    advisory_warning_gate [of "fresh_process Map.empty" "[]" "Named ''src''" "[AStr ''X'']" "[]"]
  by (simp add: fresh_process_def Logger_warning_def emitted_log_at_level)

text \<open>
  C7. The claim as stated fails in these places. The scoped enter returns the object
  itself, not nothing. With progress bars off, an iterable given by keyword
  (\<^verbatim>\<open>tqdm(iterable=[1, 2])\<close>) is not kept, and iterating the null object raises
  \<^verbatim>\<open>TypeError\<close>. The call \<^verbatim>\<open>obj._iterator()\<close> finds the stored iterable by ordinary
  lookup and raises \<^verbatim>\<open>TypeError\<close>. The call \<^verbatim>\<open>obj.__init__([])\<close> has an effect: it
  replaces the stored iterable. And a constructor call with a keyword called \<^verbatim>\<open>self\<close>
  builds no object.
\<close>

theorem null_progress_claim_fails:
  "fst (invoke [''__getstate__''] Enter \<lparr>iterator = PyList [PyInt 1]\<rparr> (fresh_process Map.empty)) =
     Object \<lparr>iterator = PyList [PyInt 1]\<rparr>
   \<and> fst (invoke [''__getstate__''] Enter \<lparr>iterator = PyList [PyInt 1]\<rparr>
        (fresh_process Map.empty)) \<noteq> Value PyNone
   \<and> tqdm_call [] [(''iterable'', PyList [PyInt 1, PyInt 2])]
        (disable_progress_bar (fresh_process Map.empty)) = Inr (Null \<lparr>iterator = PyNone\<rparr>)
   \<and> fst (invoke [''__getstate__''] Iter \<lparr>iterator = PyNone\<rparr>
        (disable_progress_bar (fresh_process Map.empty))) = Raised TypeError
   \<and> fst (invoke [''__getstate__''] (Other ''_iterator'' [] []) \<lparr>iterator = PyList [PyInt 1]\<rparr>
        (fresh_process Map.empty)) = Raised TypeError
   \<and> fst (snd (invoke [''__getstate__''] (Other ''__init__'' [PyList []] [])
        \<lparr>iterator = PyList [PyInt 1]\<rparr> (fresh_process Map.empty))) = \<lparr>iterator = PyList []\<rparr>
   \<and> EmptyTqdm_init [PyList [PyInt 1]] [(''self'', PyInt 0)] = Inl TypeError"
  by (simp add: EmptyTqdm_enter_def tqdm_call_def disable_progress_bar_def fresh_process_def
      EmptyTqdm_init_def iterate_def EmptyTqdm_iter_def call_by_name_def)

text \<open>
  C7, as the code has it. An object built over an iterable given as the first positional
  argument yields the elements of that iterable in order when iterated (and the factory
  builds that object when progress bars are off). The scoped enter returns the object
  itself and the scoped exit returns \<^verbatim>\<open>None\<close>. A call of any name that ordinary lookup
  does not find returns \<^verbatim>\<open>None\<close>. None of these raises or changes the object or the
  process state.
\<close>

theorem null_progress_object:
  "(''self'' \<notin> fst ` set kw \<and> py_iter v = Inr xs \<longrightarrow>
      EmptyTqdm_init (v # args) kw = Inr \<lparr>iterator = v\<rparr>
      \<and> invoke added Iter \<lparr>iterator = v\<rparr> s = (Yields xs, \<lparr>iterator = v\<rparr>, s)
      \<and> (\<not> tqdm_active s \<longrightarrow> tqdm_call (v # args) kw s = Inr (Null \<lparr>iterator = v\<rparr>)))
   \<and> invoke added Enter self s = (Object self, self, s)
   \<and> invoke added (Exit t e tb) self s = (Value PyNone, self, s)
   \<and> (name \<notin> set (found_by_lookup added) \<longrightarrow>
        invoke added (Other name margs mkw) self s = (Value PyNone, self, s))"
  by (auto simp: EmptyTqdm_iter_def EmptyTqdm_init_def EmptyTqdm_enter_def EmptyTqdm_exit_def
      EmptyTqdm_getattr_def empty_fn_def tqdm_call_def iterate_def call_by_name_def
      found_by_lookup_def instance_attributes_def class_attributes_def)

theorem null_progress_object_witness:
  "''self'' \<notin> fst ` set ([] :: (string \<times> pyval) list)
   \<and> py_iter (PyList [PyInt 1, PyInt 2, PyInt 3]) = Inr [PyInt 1, PyInt 2, PyInt 3]
   \<and> ''update'' \<notin> set (found_by_lookup [''__getstate__''])
   \<and> fst (invoke [''__getstate__''] Iter \<lparr>iterator = PyList [PyInt 1, PyInt 2, PyInt 3]\<rparr>
        (fresh_process Map.empty)) = Yields [PyInt 1, PyInt 2, PyInt 3]
   \<and> tqdm_call [PyList [PyInt 1, PyInt 2, PyInt 3]] [] (disable_progress_bar (fresh_process Map.empty))
       = Inr (Null \<lparr>iterator = PyList [PyInt 1, PyInt 2, PyInt 3]\<rparr>)
   \<and> fst (invoke [''__getstate__''] (Other ''update'' [PyInt 1] [])
        \<lparr>iterator = PyList [PyInt 1, PyInt 2, PyInt 3]\<rparr> (fresh_process Map.empty)) = Value PyNone"
proof -
  have u: "''update'' \<notin> set (found_by_lookup [''__getstate__''])"
    by (simp add: found_by_lookup_def instance_attributes_def class_attributes_def
        object_attributes_def)
  show ?thesis
    using null_progress_object [where v = "PyList [PyInt 1, PyInt 2, PyInt 3]"
        and xs = "[PyInt 1, PyInt 2, PyInt 3]" and args = "[]" and kw = "[]"
        and s = "disable_progress_bar (fresh_process Map.empty)"
        and added = "[''__getstate__'']"]
      null_progress_object [where v = "PyList [PyInt 1, PyInt 2, PyInt 3]"
        and xs = "[PyInt 1, PyInt 2, PyInt 3]" and args = "[]" and kw = "[]"
        and s = "fresh_process Map.empty" and added = "[''__getstate__'']"
        and name = "''update''" and margs = "[PyInt 1]" and mkw = "[]"
        and self = "\<lparr>iterator = PyList [PyInt 1, PyInt 2, PyInt 3]\<rparr>"] u
    by (simp add: disable_progress_bar_def)
qed




end
